theory Spec2Isabelle
  imports Main "HOL-Library.Sublist"
begin

section \<open>Transcript extraction and entity resolution (intake/services/transcript_parser.py)\<close>

text \<open>
  A shallow embedding of \<^verbatim>\<open>TranscriptParserService\<close> and of the view that drives it.
  Python strings are character lists; the case mapping and the whitespace class are the
  ASCII ones. A date is its proleptic Gregorian ordinal (\<^verbatim>\<open>date.toordinal()\<close>), so that
  \<^verbatim>\<open>(a - b).days\<close> is the difference of two integers. Database tables are lists in
  creation order: the most recently created row is the last one.
\<close>

subsection \<open>Python string operations\<close>

definition lower_char :: "char \<Rightarrow> char" where
  "lower_char c =
     (case map_of (zip ''ABCDEFGHIJKLMNOPQRSTUVWXYZ'' ''abcdefghijklmnopqrstuvwxyz'') c of
        Some l \<Rightarrow> l
      | None \<Rightarrow> c)"

text \<open>\<^verbatim>\<open>s.lower()\<close>\<close>

definition lower :: "string \<Rightarrow> string" where
  "lower s = map lower_char s"

text \<open>\<^verbatim>\<open>kw in s\<close> on strings: \<open>kw\<close> occurs in \<open>s\<close> as a contiguous substring.\<close>

fun contains :: "string \<Rightarrow> string \<Rightarrow> bool" where
  "contains kw [] = (kw = [])"
| "contains kw (c # cs) = (prefix kw (c # cs) \<or> contains kw cs)"

text \<open>The characters \<^verbatim>\<open>str.strip()\<close> removes, within ASCII: tab, line feed, vertical tab,
  form feed, carriage return, the four separators 0x1C to 0x1F, and the space.\<close>

definition is_space :: "char \<Rightarrow> bool" where
  "is_space c = (c \<in> set [CHR 0x09, CHR 0x0A, CHR 0x0B, CHR 0x0C, CHR 0x0D,
                            CHR 0x1C, CHR 0x1D, CHR 0x1E, CHR 0x1F, CHR '' ''])"

text \<open>\<^verbatim>\<open>s.strip()\<close>\<close>

definition strip :: "string \<Rightarrow> string" where
  "strip s = rev (dropWhile is_space (rev (dropWhile is_space s)))"

text \<open>\<^verbatim>\<open>s.split(" ", 1)\<close>: at most one cut, at the first space; the result has one or two
  elements.\<close>

definition split1 :: "string \<Rightarrow> string list" where
  "split1 s =
     (case dropWhile (\<lambda>c. c \<noteq> CHR '' '') s of
        [] \<Rightarrow> [s]
      | _ # rest \<Rightarrow> [takeWhile (\<lambda>c. c \<noteq> CHR '' '') s, rest])"

text \<open>\<^verbatim>\<open>s.split(",")\<close>: every comma cuts; the result is never empty.\<close>

fun split_comma :: "string \<Rightarrow> string list" where
  "split_comma [] = [[]]"
| "split_comma (c # cs) =
     (case split_comma cs of
        [] \<Rightarrow> (if c = CHR '','' then [[], []] else [[c]])
      | w # ws \<Rightarrow> (if c = CHR '','' then [] # w # ws else (c # w) # ws))"

text \<open>\<^verbatim>\<open>" ".join(xs)\<close>\<close>

fun join_space :: "string list \<Rightarrow> string" where
  "join_space [] = []"
| "join_space [x] = x"
| "join_space (x # y # ys) = x @ '' '' @ join_space (y # ys)"

text \<open>\<^verbatim>\<open>any(kw in s for kw in kws)\<close>\<close>

definition any_in :: "string list \<Rightarrow> string \<Rightarrow> bool" where
  "any_in kws s = list_ex (\<lambda>kw. contains kw s) kws"

subsection \<open>Findings and the extraction result\<close>

text \<open>A key of a JSON object read with \<^verbatim>\<open>d.get(k)\<close>: absent, present with \<^verbatim>\<open>null\<close>, or
  present with a value.\<close>

datatype 'a attr = Absent | Null | Val 'a

text \<open>One finding dict of the model's reply, with the value types the extraction prompt
  prescribes (strings, and an integer turn index).\<close>

record finding =
  finding_type :: "string attr"
  field :: "string attr"
  fvalue :: "string attr"
  transcript_index :: "nat attr"
  quote :: "string attr"
  confidence :: "string attr"

text \<open>\<^verbatim>\<open>str(f.get("value", ""))\<close>\<close>

definition value_str :: "finding \<Rightarrow> string" where
  "value_str f = (case fvalue f of Absent \<Rightarrow> '''' | Null \<Rightarrow> ''None'' | Val v \<Rightarrow> v)"

type_synonym date = int

text \<open>The entity dicts built by the classifiers; the last three fields of each are the
  private \<^verbatim>\<open>_cited_text\<close>, \<^verbatim>\<open>_turn_index\<close>, \<^verbatim>\<open>_confidence\<close> keys.\<close>

record party_data =
  pd_first_name :: string
  pd_last_name :: string
  pd_company_name :: string
  pd_role :: string
  pd_cited_text :: string
  pd_turn_index :: "nat option"
  pd_confidence :: string

record medical_data =
  md_first_name :: string
  md_last_name :: string
  md_facility_name :: string
  md_specialty :: string
  md_treatment_type :: string
  md_diagnosis :: string
  md_cited_text :: string
  md_turn_index :: "nat option"
  md_confidence :: string

record insurance_data =
  ins_company_name :: string
  ins_policy_number :: string
  ins_claim_number :: string
  ins_coverage_type :: string
  ins_adjuster_name :: string

text \<open>\<open>dd_estimated_amount\<close> holds the comma-free numeral that the source hands to
  \<^verbatim>\<open>float\<close>; the floating-point conversion itself is not modelled.\<close>

record damage_data =
  dd_category :: string
  dd_description :: string
  dd_estimated_amount :: "string option"
  dd_cited_text :: string
  dd_turn_index :: "nat option"
  dd_confidence :: string

text \<open>\<^verbatim>\<open>IntakeExtractionResult\<close>; \<^verbatim>\<open>confidence_scores\<close> is always the empty dict and is left out.\<close>

record extraction_result =
  incident_date :: "date option"
  incident_type :: "string option"
  incident_location :: "string option"
  injuries :: "string list"
  medical_providers :: "medical_data list"
  insurance_carriers :: "insurance_data list"
  other_parties :: "party_data list"
  damages :: "damage_data list"
  raw_flags :: "string list"

subsection \<open>The extraction call and its cache\<close>

text \<open>Exceptions of the source. \<open>RuntimeError\<close> is the classified error that \<^verbatim>\<open>_call_llm\<close>
  raises itself; the others are raised by Python or by the ORM.\<close>

datatype error =
    RuntimeError string
  | AttributeError
  | KeyError
  | DoesNotExist
  | MultipleObjectsReturned
  | DatabaseError

text \<open>What the chat-completion request gives back. \<open>OpenAIError\<close> is the exception of the
  client library. \<open>Content None\<close> is a message that \<^verbatim>\<open>json.loads\<close> rejects with
  \<^verbatim>\<open>JSONDecodeError\<close>; \<open>Content (Some doc)\<close> is a message that parses to \<open>doc\<close>. A parsed
  document is an object or not; of an object only the \<^verbatim>\<open>findings\<close> key is read, which is
  absent, \<^verbatim>\<open>null\<close>, a list, or some other value; an element of the list is a dict or not.\<close>

datatype item = NonDict | Dict finding

datatype findings_value = NonList | ItemList "item list"

datatype json_doc = NonObject | Object "findings_value attr"

datatype llm_reply = OpenAIError | Content "json_doc option"

type_synonym turn = "string \<times> string"

text \<open>A transcript list object: \<open>tid\<close> is its identity (\<^verbatim>\<open>id(turns)\<close>), distinct for
  distinct live objects; \<open>titems\<close> are its turns (speaker, text).\<close>

record turns_obj =
  tid :: nat
  titems :: "turn list"

text \<open>What the service reads from outside: the configured key (\<^verbatim>\<open>settings.OPENAPI_KEY\<close>), the
  model behind the API, the clock, \<^verbatim>\<open>date.fromisoformat\<close> (\<open>None\<close> for \<^verbatim>\<open>ValueError\<close>), and
  whether the database refuses to insert a citation row with a given key and text, or a
  citation reference with a given content type and label.\<close>

record env =
  api_key :: "string option"
  llm :: "turn list \<Rightarrow> llm_reply"
  clock_today :: date
  fromisoformat :: "string \<Rightarrow> date option"
  citation_write_fails :: "string \<Rightarrow> string \<Rightarrow> bool"
  reference_write_fails :: "string \<Rightarrow> string \<Rightarrow> bool"

text \<open>The service instance: its \<^verbatim>\<open>_findings_cache\<close> attribute (\<open>None\<close> while it is unset),
  and a counter of the chat-completion requests the instance has sent.\<close>

record service =
  findings_cache :: "(nat \<times> finding list) option"
  llm_calls :: nat

definition new_service :: service where
  "new_service = \<lparr>findings_cache = None, llm_calls = 0\<rparr>"

text \<open>\<^verbatim>\<open>[f for f in findings if isinstance(f, dict) and f.get("value") is not None]\<close>\<close>

fun valid_findings :: "item list \<Rightarrow> finding list" where
  "valid_findings [] = []"
| "valid_findings (NonDict # xs) = valid_findings xs"
| "valid_findings (Dict f # xs) =
     (case fvalue f of
        Val _ \<Rightarrow> f # valid_findings xs
      | _ \<Rightarrow> valid_findings xs)"

text \<open>\<^verbatim>\<open>_call_llm\<close>. The result is the exception or the findings, with the instance as the
  call leaves it.\<close>

definition call_llm :: "env \<Rightarrow> turns_obj \<Rightarrow> service \<Rightarrow> (error + finding list) \<times> service" where
  "call_llm e turns svc =
     (case (case findings_cache svc of
              Some (i, fdata) \<Rightarrow> if i = tid turns then Some fdata else None
            | None \<Rightarrow> None) of
        Some fdata \<Rightarrow> (Inr fdata, svc)
      | None \<Rightarrow>
          if titems turns = [] then
            (Inr [], svc\<lparr>findings_cache := Some (tid turns, [])\<rparr>)
          else if api_key e = None \<or> api_key e = Some [] then
            (Inl (RuntimeError ''OPENAPI_KEY is not set.''), svc)
          else
            (let svc1 = svc\<lparr>llm_calls := llm_calls svc + 1\<rparr>
             in case llm e (titems turns) of
                  OpenAIError \<Rightarrow> (Inl (RuntimeError ''LLM extraction failed''), svc1)
                | Content None \<Rightarrow> (Inl (RuntimeError ''LLM returned non-JSON response''), svc1)
                | Content (Some NonObject) \<Rightarrow> (Inl AttributeError, svc1)
                | Content (Some (Object fv)) \<Rightarrow>
                    (case (case fv of Absent \<Rightarrow> Val (ItemList []) | _ \<Rightarrow> fv) of
                       Val (ItemList xs) \<Rightarrow>
                         (let valid = valid_findings xs
                          in (Inr valid, svc1\<lparr>findings_cache := Some (tid turns, valid)\<rparr>))
                     | _ \<Rightarrow> (Inl (RuntimeError ''LLM response missing findings list.''), svc1))))"

subsection \<open>Classifiers\<close>

text \<open>The dict comprehension \<^verbatim>\<open>{f["field"]: f for f in findings if f.get("finding_type") ==
  "metadata"}\<close>: a later finding replaces an earlier one with the same field, and a metadata
  finding without a \<^verbatim>\<open>field\<close> key raises \<^verbatim>\<open>KeyError\<close>. A \<^verbatim>\<open>null\<close> field is the key \<^verbatim>\<open>None\<close>,
  which no lookup of the source asks for, so it is not stored.\<close>

fun index_meta :: "finding list \<Rightarrow> (string \<rightharpoonup> finding) \<Rightarrow> error + (string \<rightharpoonup> finding)" where
  "index_meta [] m = Inr m"
| "index_meta (f # fs) m =
     (if finding_type f = Val ''metadata'' then
        (case field f of
           Absent \<Rightarrow> Inl KeyError
         | Null \<Rightarrow> index_meta fs m
         | Val k \<Rightarrow> index_meta fs (m(k \<mapsto> f)))
      else index_meta fs m)"

text \<open>\<^verbatim>\<open>(meta.get(k) or {}).get("value")\<close>, the same as \<^verbatim>\<open>meta.get(k, {}).get("value")\<close>: a finding
  dict is never empty, hence truthy.\<close>

definition meta_value :: "(string \<rightharpoonup> finding) \<Rightarrow> string \<Rightarrow> string option" where
  "meta_value m k =
     (case m k of
        None \<Rightarrow> None
      | Some f \<Rightarrow> (case fvalue f of Val v \<Rightarrow> Some v | _ \<Rightarrow> None))"

text \<open>\<^verbatim>\<open>_INCIDENT_TYPE_MAP.get(key, "other")\<close>\<close>

definition incident_type_map :: "string \<Rightarrow> string" where
  "incident_type_map k =
     (case map_of
        [(''auto_accident'', ''auto''), (''auto accident'', ''auto''),
         (''slip_fall'', ''slip_fall''), (''slip and fall'', ''slip_fall''),
         (''medical_malpractice'', ''medical_malpractice''),
         (''medical malpractice'', ''medical_malpractice''),
         (''workers_comp'', ''workplace''), (''workers compensation'', ''workplace''),
         (''workplace'', ''workplace''),
         (''product_liability'', ''product_liability''),
         (''product liability'', ''product_liability''),
         (''wrongful_death'', ''other''), (''wrongful death'', ''other''),
         (''other'', ''other'')] k of
        Some t \<Rightarrow> t
      | None \<Rightarrow> ''other'')"

definition FACILITY_KEYWORDS :: "string list" where
  "FACILITY_KEYWORDS =
     [''hospital'', ''clinic'', ''center'', ''centre'', ''medical'', ''health'', ''urgent care'',
      ''orthopedic'', ''chiropractic'', ''chiropractor'', ''rehab'', ''rehabilitation'',
      ''imaging'', ''radiology'', ''pharmacy'', ''er '', ''emergency room'']"

definition COMPANY_KEYWORDS :: "string list" where
  "COMPANY_KEYWORDS =
     [''inc'', ''llc'', ''corp'', ''co.'', ''company'', ''ltd'', ''group'', ''trucking'',
      ''transport'', ''logistics'', ''construction'', ''properties'', ''management'']"

text \<open>The dict that \<^verbatim>\<open>_extract_incident_info\<close> returns.\<close>

record incident_info =
  ii_incident_date :: "date option"
  ii_incident_type :: "string option"
  ii_incident_location :: "string option"
  ii_injuries :: "string list"

text \<open>The body of \<^verbatim>\<open>_extract_incident_info\<close> after the findings are there.\<close>

definition incident_info_of :: "env \<Rightarrow> finding list \<Rightarrow> error + incident_info" where
  "incident_info_of e findings =
     (case index_meta findings Map.empty of
        Inl err \<Rightarrow> Inl err
      | Inr m \<Rightarrow>
          Inr \<lparr>ii_incident_date =
                 (case meta_value m ''accident_date'' of
                    None \<Rightarrow> None
                  | Some raw_date \<Rightarrow> if raw_date = [] then None else fromisoformat e raw_date),
               ii_incident_type =
                 (case meta_value m ''case_type'' of
                    None \<Rightarrow> None
                  | Some raw_case_type \<Rightarrow>
                      if raw_case_type = [] then None
                      else Some (incident_type_map (strip (lower raw_case_type)))),
               ii_incident_location = meta_value m ''incident_location'',
               ii_injuries =
                 (case meta_value m ''injuries'' of
                    None \<Rightarrow> []
                  | Some raw_injuries \<Rightarrow>
                      if raw_injuries = [] then []
                      else filter (\<lambda>i. i \<noteq> []) (map strip (split_comma raw_injuries)))\<rparr>)"

text \<open>\<^verbatim>\<open>_extract_incident_info\<close>\<close>

definition extract_incident_info ::
  "env \<Rightarrow> turns_obj \<Rightarrow> service \<Rightarrow> (error + incident_info) \<times> service" where
  "extract_incident_info e turns svc =
     (case call_llm e turns svc of
        (Inl err, svc') \<Rightarrow> (Inl err, svc')
      | (Inr findings, svc') \<Rightarrow> (incident_info_of e findings, svc'))"

text \<open>The three citation entries every classifier copies from a finding: \<^verbatim>\<open>f.get("quote") or
  value\<close>, \<^verbatim>\<open>f.get("transcript_index")\<close>, \<^verbatim>\<open>f.get("confidence", "high")\<close>. The confidence is read
  later through \<^verbatim>\<open>str\<close> only, so a \<^verbatim>\<open>null\<close> is kept as the text \<^verbatim>\<open>None\<close>.\<close>

definition cited_text_of :: "finding \<Rightarrow> string \<Rightarrow> string" where
  "cited_text_of f v = (case quote f of Val q \<Rightarrow> if q = [] then v else q | _ \<Rightarrow> v)"

definition turn_index_of :: "finding \<Rightarrow> nat option" where
  "turn_index_of f = (case transcript_index f of Val n \<Rightarrow> Some n | _ \<Rightarrow> None)"

definition confidence_of :: "finding \<Rightarrow> string" where
  "confidence_of f =
     (case confidence f of Absent \<Rightarrow> ''high'' | Null \<Rightarrow> ''None'' | Val c \<Rightarrow> c)"

text \<open>The person branch shared by the classifiers: \<^verbatim>\<open>parts = s.split(" ", 1)\<close>, then
  \<^verbatim>\<open>parts[0] if len(parts) == 2 else ""\<close> and \<^verbatim>\<open>parts[1] if len(parts) == 2 else parts[0]\<close>.\<close>

definition name_parts :: "string \<Rightarrow> string \<times> string" where
  "name_parts s =
     (let parts = split1 s
      in (if length parts = 2 then parts ! 0 else [],
          if length parts = 2 then parts ! 1 else parts ! 0))"

text \<open>One loop body of \<^verbatim>\<open>_extract_parties\<close>; \<open>None\<close> is \<^verbatim>\<open>continue\<close>.\<close>

definition party_of :: "finding \<Rightarrow> party_data option" where
  "party_of f =
     (if finding_type f \<noteq> Val ''individual'' \<or> field f \<noteq> Val ''other_party'' then None
      else
        (let v = strip (value_str f)
         in if v = [] then None
            else if any_in COMPANY_KEYWORDS (lower v) then
              Some \<lparr>pd_first_name = [], pd_last_name = [], pd_company_name = v,
                    pd_role = ''at-fault party'', pd_cited_text = cited_text_of f v,
                    pd_turn_index = turn_index_of f, pd_confidence = confidence_of f\<rparr>
            else
              Some \<lparr>pd_first_name = fst (name_parts v), pd_last_name = snd (name_parts v),
                    pd_company_name = [], pd_role = ''at-fault party'',
                    pd_cited_text = cited_text_of f v,
                    pd_turn_index = turn_index_of f, pd_confidence = confidence_of f\<rparr>))"

text \<open>\<^verbatim>\<open>re.sub(r"^(Dr\.?\s+|Doctor\s+)", "", value, flags=re.IGNORECASE)\<close>. \<open>after_ws\<close> is the
  match of \<^verbatim>\<open>\s+\<close> at the start of a string: what follows the whitespace, if there is any.\<close>

definition after_ws :: "string \<Rightarrow> string option" where
  "after_ws s =
     (case s of
        [] \<Rightarrow> None
      | c # cs \<Rightarrow> if is_space c then Some (dropWhile is_space cs) else None)"

definition drop_honorific :: "string \<Rightarrow> string" where
  "drop_honorific v =
     (let dr =
            (if prefix ''dr'' (lower v) then
               (case (case drop 2 v of
                        c # cs \<Rightarrow> if c = CHR ''.'' then after_ws cs else None
                      | [] \<Rightarrow> None) of
                  Some r \<Rightarrow> Some r
                | None \<Rightarrow> after_ws (drop 2 v))
             else None)
      in case dr of
           Some r \<Rightarrow> r
         | None \<Rightarrow>
             (if prefix ''doctor'' (lower v) then
                (case after_ws (drop 6 v) of Some r \<Rightarrow> r | None \<Rightarrow> v)
              else v))"

text \<open>One loop body of \<^verbatim>\<open>_extract_medical\<close>.\<close>

definition medical_of :: "finding \<Rightarrow> medical_data option" where
  "medical_of f =
     (if finding_type f \<noteq> Val ''individual'' \<or> field f \<noteq> Val ''medical_provider'' then None
      else
        (let v = strip (value_str f)
         in if v = [] then None
            else if any_in FACILITY_KEYWORDS (lower v) then
              Some \<lparr>md_first_name = [], md_last_name = [], md_facility_name = v,
                    md_specialty = [], md_treatment_type = [], md_diagnosis = [],
                    md_cited_text = cited_text_of f v,
                    md_turn_index = turn_index_of f, md_confidence = confidence_of f\<rparr>
            else
              (let name = strip (drop_honorific v)
               in Some \<lparr>md_first_name = fst (name_parts name),
                        md_last_name = snd (name_parts name),
                        md_facility_name = [],
                        md_specialty = [], md_treatment_type = [], md_diagnosis = [],
                        md_cited_text = cited_text_of f v,
                        md_turn_index = turn_index_of f, md_confidence = confidence_of f\<rparr>)))"

text \<open>One loop body of \<^verbatim>\<open>_extract_insurance\<close>.\<close>

definition insurance_of :: "finding \<Rightarrow> insurance_data option" where
  "insurance_of f =
     (if finding_type f \<noteq> Val ''individual'' \<or> field f \<noteq> Val ''insurance_provider'' then None
      else
        (let v = strip (value_str f)
         in if v = [] then None
            else Some \<lparr>ins_company_name = v, ins_policy_number = [],
                       ins_claim_number = [], ins_coverage_type = ''liability'',
                       ins_adjuster_name = []\<rparr>))"

text \<open>\<^verbatim>\<open>re.search(r"\$?([\d,]+(?:\.\d+)?)", value)\<close>, group 1 with the commas removed: the
  leftmost run of digits and commas, with a decimal point and digits after it if they
  follow. \<^verbatim>\<open>float\<close> rejects the empty numeral (\<^verbatim>\<open>ValueError\<close>, amount \<^verbatim>\<open>None\<close>).\<close>

definition is_digit :: "char \<Rightarrow> bool" where
  "is_digit c = (c \<in> set ''0123456789'')"

definition amount_text :: "string \<Rightarrow> string option" where
  "amount_text v =
     (let is_dc = (\<lambda>c. is_digit c \<or> c = CHR '','');
          s = dropWhile (\<lambda>c. \<not> is_dc c) v
      in if s = [] then None
         else
           (let whole = takeWhile is_dc s;
                rest = dropWhile is_dc s;
                frac = (case rest of
                          c # d # _ \<Rightarrow>
                            if c = CHR ''.'' \<and> is_digit d
                            then c # takeWhile is_digit (tl rest) else []
                        | _ \<Rightarrow> []);
                numeral = filter (\<lambda>c. c \<noteq> CHR '','') (whole @ frac)
            in if numeral = [] then None else Some numeral))"

text \<open>The keyword cascade of \<^verbatim>\<open>_extract_damages\<close>.\<close>

definition damage_category :: "string \<Rightarrow> string" where
  "damage_category value_lower =
     (if any_in [''wage'', ''lost income'', ''lost earnings''] value_lower then ''lost_wages''
      else if contains ''future'' value_lower \<and> contains ''medical'' value_lower
        then ''future_medical''
      else if any_in [''medical'', ''hospital'', ''doctor'', ''bill'', ''treatment''] value_lower
        then ''medical''
      else if any_in [''property'', ''vehicle'', ''car'', ''truck'', ''repair''] value_lower
        then ''property''
      else ''other'')"

text \<open>One loop body of \<^verbatim>\<open>_extract_damages\<close>.\<close>

definition damage_of :: "finding \<Rightarrow> damage_data option" where
  "damage_of f =
     (if finding_type f \<noteq> Val ''individual'' \<or> field f \<noteq> Val ''financial_expense'' then None
      else
        (let v = strip (value_str f)
         in if v = [] then None
            else Some \<lparr>dd_category = damage_category (lower v), dd_description = v,
                       dd_estimated_amount = amount_text v,
                       dd_cited_text = cited_text_of f v,
                       dd_turn_index = turn_index_of f, dd_confidence = confidence_of f\<rparr>))"

text \<open>\<^verbatim>\<open>_extract_parties\<close>, \<^verbatim>\<open>_extract_medical\<close>, \<^verbatim>\<open>_extract_insurance\<close>, \<^verbatim>\<open>_extract_damages\<close>: each asks
  \<^verbatim>\<open>_call_llm\<close> for the findings and runs its loop over them.\<close>

definition extract_parties ::
  "env \<Rightarrow> turns_obj \<Rightarrow> service \<Rightarrow> (error + party_data list) \<times> service" where
  "extract_parties e turns svc =
     (case call_llm e turns svc of
        (Inl err, svc') \<Rightarrow> (Inl err, svc')
      | (Inr findings, svc') \<Rightarrow> (Inr (List.map_filter party_of findings), svc'))"

definition extract_medical ::
  "env \<Rightarrow> turns_obj \<Rightarrow> service \<Rightarrow> (error + medical_data list) \<times> service" where
  "extract_medical e turns svc =
     (case call_llm e turns svc of
        (Inl err, svc') \<Rightarrow> (Inl err, svc')
      | (Inr findings, svc') \<Rightarrow> (Inr (List.map_filter medical_of findings), svc'))"

definition extract_insurance ::
  "env \<Rightarrow> turns_obj \<Rightarrow> service \<Rightarrow> (error + insurance_data list) \<times> service" where
  "extract_insurance e turns svc =
     (case call_llm e turns svc of
        (Inl err, svc') \<Rightarrow> (Inl err, svc')
      | (Inr findings, svc') \<Rightarrow> (Inr (List.map_filter insurance_of findings), svc'))"

definition extract_damages ::
  "env \<Rightarrow> turns_obj \<Rightarrow> service \<Rightarrow> (error + damage_data list) \<times> service" where
  "extract_damages e turns svc =
     (case call_llm e turns svc of
        (Inl err, svc') \<Rightarrow> (Inl err, svc')
      | (Inr findings, svc') \<Rightarrow> (Inr (List.map_filter damage_of findings), svc'))"

subsection \<open>The database (intake/models.py)\<close>

text \<open>Rows carry the columns the service reads or writes. Primary keys (UUIDs in the
  source) are natural numbers drawn from \<open>next_id\<close>. A confidence score is kept in tenths
  (10 for 1.0, 7 for 0.7, 4 for 0.4).\<close>

record law_firm =
  lf_id :: nat
  lf_name :: string

record client =
  cl_id :: nat
  cl_law_firm :: nat
  cl_first_name :: string
  cl_last_name :: string

record case_row =
  cs_id :: nat
  cs_client :: nat
  cs_incident_type :: string
  cs_incident_date :: "date option"
  cs_incident_location :: string

record other_party =
  op_id :: nat
  op_case :: nat
  op_first_name :: string
  op_last_name :: string
  op_company_name :: string
  op_role :: string

record medical_facility =
  mf_id :: nat
  mf_name :: string

record medical_provider =
  mp_id :: nat
  mp_facility :: "nat option"
  mp_first_name :: string
  mp_last_name :: string
  mp_specialty :: string

record treatment =
  tr_id :: nat
  tr_case :: nat
  tr_provider :: nat
  tr_treatment_type :: string
  tr_diagnosis :: string

record damage =
  dm_id :: nat
  dm_case :: nat
  dm_category :: string
  dm_description :: string
  dm_estimated_amount :: "string option"

record communication =
  cm_id :: nat
  cm_client :: nat
  cm_case :: "nat option"
  cm_channel :: string
  cm_raw_transcript :: "turn list"
  cm_parse_status :: string

record citation =
  ct_id :: nat
  ct_communication :: nat
  ct_citation_key :: string
  ct_cited_text :: string
  ct_turn_index :: "nat option"
  ct_confidence_score :: nat

record citation_reference =
  cr_id :: nat
  cr_citation :: nat
  cr_content_type :: string
  cr_object_id :: nat
  cr_relationship_label :: string

record db =
  law_firms :: "law_firm list"
  clients :: "client list"
  cases :: "case_row list"
  other_party_rows :: "other_party list"
  medical_facilities :: "medical_facility list"
  medical_provider_rows :: "medical_provider list"
  treatments :: "treatment list"
  damage_rows :: "damage list"
  communications :: "communication list"
  citations :: "citation list"
  citation_references :: "citation_reference list"
  next_id :: nat

text \<open>\<^verbatim>\<open>Model.objects.get(...)\<close> inside \<^verbatim>\<open>get_or_create\<close>: no row, the one row, or
  \<^verbatim>\<open>MultipleObjectsReturned\<close>.\<close>

definition get_unique :: "('a \<Rightarrow> bool) \<Rightarrow> 'a list \<Rightarrow> error + 'a option" where
  "get_unique P rows =
     (case filter P rows of
        [] \<Rightarrow> Inr None
      | [x] \<Rightarrow> Inr (Some x)
      | _ \<Rightarrow> Inl MultipleObjectsReturned)"

text \<open>\<^verbatim>\<open>qs.first()\<close> on a queryset ordered by \<^verbatim>\<open>-created_at\<close>: the most recently created row.\<close>

definition newest :: "'a list \<Rightarrow> 'a option" where
  "newest rows = (if rows = [] then None else Some (last rows))"

subsection \<open>The case and client matcher\<close>

text \<open>The lookups \<^verbatim>\<open>__iexact\<close> and \<^verbatim>\<open>__icontains\<close>.\<close>

definition iexact :: "string \<Rightarrow> string \<Rightarrow> bool" where
  "iexact stored given = (lower stored = lower given)"

definition icontains :: "string \<Rightarrow> string \<Rightarrow> bool" where
  "icontains stored given = contains (lower given) (lower stored)"

text \<open>\<^verbatim>\<open>client_qs\<close>: the clients of the firm whose first and last name equal the given ones up
  to letter case.\<close>

definition client_qs :: "db \<Rightarrow> nat \<Rightarrow> string \<Rightarrow> string \<Rightarrow> client list" where
  "client_qs d firm first_name last_name =
     filter (\<lambda>c. cl_law_firm c = firm \<and> iexact (cl_first_name c) first_name
                   \<and> iexact (cl_last_name c) last_name) (clients d)"

text \<open>\<^verbatim>\<open>client.case_set.all()\<close>\<close>

definition case_qs :: "db \<Rightarrow> client \<Rightarrow> case_row list" where
  "case_qs d c = filter (\<lambda>k. cs_client k = cl_id c) (cases d)"

text \<open>\<^verbatim>\<open>incident_location[:40].strip()\<close>\<close>

definition location_anchor :: "string \<Rightarrow> string" where
  "location_anchor loc = strip (take 40 loc)"

text \<open>\<^verbatim>\<open>_find_existing_case\<close>. A date and a model instance are always truthy; a string is
  truthy when it is not empty.\<close>

definition find_existing_case ::
  "db \<Rightarrow> nat \<Rightarrow> string \<Rightarrow> string \<Rightarrow> string option \<Rightarrow> date option \<Rightarrow> string option
     \<Rightarrow> (client \<times> case_row) option" where
  "find_existing_case d firm first_name last_name inc_type inc_date inc_location =
     (case newest (client_qs d firm first_name last_name) of
        None \<Rightarrow> None
      | Some c \<Rightarrow>
          if case_qs d c = [] then None
          else
            (case (case inc_date of
                     None \<Rightarrow> None
                   | Some dt \<Rightarrow>
                       newest (filter (\<lambda>k. cs_incident_date k = Some dt) (case_qs d c))) of
               Some date_match \<Rightarrow> Some (c, date_match)
             | None \<Rightarrow>
                 (case (inc_type, inc_location) of
                    (Some t, Some loc) \<Rightarrow>
                      if t \<noteq> [] \<and> loc \<noteq> [] then
                        (case newest (filter (\<lambda>k. cs_incident_type k = t
                                  \<and> icontains (cs_incident_location k) (location_anchor loc))
                                (case_qs d c)) of
                           Some type_loc_match \<Rightarrow> Some (c, type_loc_match)
                         | None \<Rightarrow> None)
                      else None
                  | _ \<Rightarrow> None)))"

subsection \<open>Citations and persistence\<close>

text \<open>\<^verbatim>\<open>_CONF.get(str(confidence).lower(), 1.0)\<close>, in tenths.\<close>

definition conf_score :: "string \<Rightarrow> nat" where
  "conf_score c =
     (case map_of [(''high'', 10), (''medium'', 7), (''low'', 4)] (lower c) of
        Some s \<Rightarrow> s
      | None \<Rightarrow> 10)"

definition ALLOWED_CONTENT_TYPES :: "string list" where
  "ALLOWED_CONTENT_TYPES = [''client'', ''otherparty'', ''medicalprovider'', ''insuranceprovider'']"

text \<open>The body shared by \<^verbatim>\<open>_cite\<close> and \<^verbatim>\<open>_cite_meta\<close>: insert the citation, then, for an
  object of an allowed content type, the reference to it. \<open>obj\<close> is the content type's
  model name and the primary key of the object. Neither function catches an exception of
  the two inserts.\<close>

definition create_citation ::
  "env \<Rightarrow> nat \<Rightarrow> string \<Rightarrow> string \<Rightarrow> nat option \<Rightarrow> string \<Rightarrow> (string \<times> nat) option \<Rightarrow> string
     \<Rightarrow> db \<Rightarrow> (error + unit) \<times> db" where
  "create_citation e comm citation_key cited_text turn_index conf obj label d =
     (if citation_write_fails e citation_key cited_text then (Inl DatabaseError, d)
      else
        (let cit = \<lparr>ct_id = next_id d, ct_communication = comm,
                     ct_citation_key = citation_key, ct_cited_text = cited_text,
                     ct_turn_index = turn_index, ct_confidence_score = conf_score conf\<rparr>;
             d1 = d\<lparr>citations := citations d @ [cit], next_id := next_id d + 1\<rparr>
         in case obj of
              None \<Rightarrow> (Inr (), d1)
            | Some (model, pk) \<Rightarrow>
                if model \<in> set ALLOWED_CONTENT_TYPES then
                  (if reference_write_fails e model label then (Inl DatabaseError, d1)
                   else
                     (Inr (),
                      d1\<lparr>citation_references := citation_references d1 @
                            [\<lparr>cr_id = next_id d1, cr_citation = ct_id cit,
                              cr_content_type = model, cr_object_id = pk,
                              cr_relationship_label = label\<rparr>],
                          next_id := next_id d1 + 1\<rparr>))
                else (Inr (), d1)))"

text \<open>\<^verbatim>\<open>_cite\<close> of \<^verbatim>\<open>persist\<close>: nothing is written without a communication.\<close>

definition cite ::
  "env \<Rightarrow> nat option \<Rightarrow> string \<Rightarrow> string \<Rightarrow> nat option \<Rightarrow> string \<Rightarrow> (string \<times> nat) option \<Rightarrow> string
     \<Rightarrow> db \<Rightarrow> (error + unit) \<times> db" where
  "cite e communication citation_key cited_text turn_index conf obj label d =
     (case communication of
        None \<Rightarrow> (Inr (), d)
      | Some comm \<Rightarrow> create_citation e comm citation_key cited_text turn_index conf obj label d)"

text \<open>A \<^verbatim>\<open>for\<close> loop over a list whose body may raise: the first exception ends the loop,
  and the database keeps what the earlier iterations and the failing one wrote.\<close>

fun for_each :: "('a \<Rightarrow> db \<Rightarrow> (error + unit) \<times> db) \<Rightarrow> 'a list \<Rightarrow> db \<Rightarrow> (error + unit) \<times> db" where
  "for_each body [] d = (Inr (), d)"
| "for_each body (x # xs) d =
     (case body x d of
        (Inl err, d1) \<Rightarrow> (Inl err, d1)
      | (Inr _, d1) \<Rightarrow> for_each body xs d1)"

text \<open>The body of the loop over \<^verbatim>\<open>result.other_parties\<close>: \<^verbatim>\<open>get_or_create\<close> by case, first
  and last name, and a citation for a row that was created.\<close>

definition persist_party ::
  "env \<Rightarrow> nat option \<Rightarrow> nat \<Rightarrow> party_data \<Rightarrow> db \<Rightarrow> (error + unit) \<times> db" where
  "persist_party e communication cid party_data d =
     (case get_unique (\<lambda>r. op_case r = cid \<and> op_first_name r = pd_first_name party_data
                           \<and> op_last_name r = pd_last_name party_data) (other_party_rows d) of
        Inl err \<Rightarrow> (Inl err, d)
      | Inr (Some party) \<Rightarrow> (Inr (), d)
      | Inr None \<Rightarrow>
          (let party = \<lparr>op_id = next_id d, op_case = cid,
                         op_first_name = pd_first_name party_data,
                         op_last_name = pd_last_name party_data,
                         op_company_name = pd_company_name party_data,
                         op_role = pd_role party_data\<rparr>;
               d1 = d\<lparr>other_party_rows := other_party_rows d @ [party],
                      next_id := next_id d + 1\<rparr>
           in cite e communication ''other_party'' (pd_cited_text party_data)
                (pd_turn_index party_data) (pd_confidence party_data)
                (Some (''otherparty'', op_id party)) ''at-fault party'' d1))"

text \<open>\<^verbatim>\<open>MedicalFacility.objects.get_or_create(name=facility_name)\<close>, for a non-empty name.\<close>

definition facility_get_or_create :: "string \<Rightarrow> db \<Rightarrow> (error + nat option) \<times> db" where
  "facility_get_or_create facility_name d =
     (if facility_name = [] then (Inr None, d)
      else
        (case get_unique (\<lambda>r. mf_name r = facility_name) (medical_facilities d) of
           Inl err \<Rightarrow> (Inl err, d)
         | Inr (Some facility) \<Rightarrow> (Inr (Some (mf_id facility)), d)
         | Inr None \<Rightarrow>
             (Inr (Some (next_id d)),
              d\<lparr>medical_facilities := medical_facilities d @
                    [\<lparr>mf_id = next_id d, mf_name = facility_name\<rparr>],
                next_id := next_id d + 1\<rparr>)))"

text \<open>\<^verbatim>\<open>Treatment.objects.get_or_create(case=case, provider=provider, defaults=...)\<close>\<close>

definition treatment_get_or_create ::
  "nat \<Rightarrow> nat \<Rightarrow> medical_data \<Rightarrow> db \<Rightarrow> (error + unit) \<times> db" where
  "treatment_get_or_create cid provider mp_data d =
     (case get_unique (\<lambda>r. tr_case r = cid \<and> tr_provider r = provider) (treatments d) of
        Inl err \<Rightarrow> (Inl err, d)
      | Inr (Some _) \<Rightarrow> (Inr (), d)
      | Inr None \<Rightarrow>
          (Inr (),
           d\<lparr>treatments := treatments d @
                 [\<lparr>tr_id = next_id d, tr_case = cid, tr_provider = provider,
                   tr_treatment_type = md_treatment_type mp_data,
                   tr_diagnosis = md_diagnosis mp_data\<rparr>],
             next_id := next_id d + 1\<rparr>))"

text \<open>\<^verbatim>\<open>MedicalProvider.objects.get_or_create(first_name=..., last_name=..., defaults=...)\<close>
  with the citation for a provider that was created; the result is the provider's key.\<close>

definition provider_get_or_create ::
  "env \<Rightarrow> nat option \<Rightarrow> nat option \<Rightarrow> medical_data \<Rightarrow> db \<Rightarrow> (error + nat) \<times> db" where
  "provider_get_or_create e communication facility mp_data d1 =
     (case get_unique (\<lambda>r. mp_first_name r = md_first_name mp_data
                           \<and> mp_last_name r = md_last_name mp_data)
             (medical_provider_rows d1) of
        Inl err \<Rightarrow> (Inl err, d1)
      | Inr (Some provider) \<Rightarrow> (Inr (mp_id provider), d1)
      | Inr None \<Rightarrow>
          (let provider = \<lparr>mp_id = next_id d1, mp_facility = facility,
                            mp_first_name = md_first_name mp_data,
                            mp_last_name = md_last_name mp_data,
                            mp_specialty = md_specialty mp_data\<rparr>;
               d2 = d1\<lparr>medical_provider_rows := medical_provider_rows d1 @ [provider],
                       next_id := next_id d1 + 1\<rparr>
           in case cite e communication ''medical_provider'' (md_cited_text mp_data)
                     (md_turn_index mp_data) (md_confidence mp_data)
                     (Some (''medicalprovider'', mp_id provider))
                     ''treating provider'' d2 of
                (Inl err, d3) \<Rightarrow> (Inl err, d3)
              | (Inr _, d3) \<Rightarrow> (Inr (mp_id provider), d3)))"

text \<open>The body of the loop over \<^verbatim>\<open>result.medical_providers\<close>: the facility, the provider
  with its citation, then the treatment.\<close>

definition persist_medical_item ::
  "env \<Rightarrow> nat option \<Rightarrow> nat \<Rightarrow> medical_data \<Rightarrow> db \<Rightarrow> (error + unit) \<times> db" where
  "persist_medical_item e communication cid mp_data d =
     (case facility_get_or_create (md_facility_name mp_data) d of
        (Inl err, d1) \<Rightarrow> (Inl err, d1)
      | (Inr facility, d1) \<Rightarrow>
          (case provider_get_or_create e communication facility mp_data d1 of
             (Inl err, d3) \<Rightarrow> (Inl err, d3)
           | (Inr provider, d3) \<Rightarrow> treatment_get_or_create cid provider mp_data d3))"

text \<open>The body of the loop over \<^verbatim>\<open>result.damages\<close>: \<^verbatim>\<open>get_or_create\<close> by case and category,
  and a citation without reference for a row that was created.\<close>

definition persist_damage ::
  "env \<Rightarrow> nat option \<Rightarrow> nat \<Rightarrow> damage_data \<Rightarrow> db \<Rightarrow> (error + unit) \<times> db" where
  "persist_damage e communication cid dmg_data d =
     (case get_unique (\<lambda>r. dm_case r = cid \<and> dm_category r = dd_category dmg_data)
             (damage_rows d) of
        Inl err \<Rightarrow> (Inl err, d)
      | Inr (Some _) \<Rightarrow> (Inr (), d)
      | Inr None \<Rightarrow>
          (let d1 = d\<lparr>damage_rows := damage_rows d @
                          [\<lparr>dm_id = next_id d, dm_case = cid,
                            dm_category = dd_category dmg_data,
                            dm_description = dd_description dmg_data,
                            dm_estimated_amount = dd_estimated_amount dmg_data\<rparr>],
                      next_id := next_id d + 1\<rparr>
           in cite e communication ''financial_expense'' (dd_cited_text dmg_data)
                (dd_turn_index dmg_data) (dd_confidence dmg_data) None [] d1))"

text \<open>The head of \<^verbatim>\<open>persist\<close>: fill the case's blank incident date and type from the result
  and save the changed columns. \<open>cs\<close> is the case instance; \<open>updated_case\<close> is what the
  save does to a row \<open>k\<close> of the table (nothing, unless it is the row of \<open>cs\<close>).\<close>

definition updated_case :: "case_row \<Rightarrow> extraction_result \<Rightarrow> case_row \<Rightarrow> case_row" where
  "updated_case cs result k =
     (let set_date = (incident_date result \<noteq> None \<and> cs_incident_date cs = None);
          set_type = (incident_type result \<noteq> None \<and> incident_type result \<noteq> Some []
                        \<and> cs_incident_type cs = [])
      in if cs_id k = cs_id cs then
           k\<lparr>cs_incident_date :=
                (if set_date then incident_date result else cs_incident_date k),
             cs_incident_type :=
                (if set_type then the (incident_type result) else cs_incident_type k)\<rparr>
         else k)"

definition update_case_fields :: "case_row \<Rightarrow> extraction_result \<Rightarrow> db \<Rightarrow> db" where
  "update_case_fields cs result d = d\<lparr>cases := map (updated_case cs result) (cases d)\<rparr>"

text \<open>\<^verbatim>\<open>persist\<close>. \<open>cs\<close> is the case instance, \<open>communication\<close> the primary key of the
  communication when one is given. The three loops run in the order of the source; an
  exception leaves \<^verbatim>\<open>persist\<close> at once.\<close>

definition persist ::
  "env \<Rightarrow> case_row \<Rightarrow> extraction_result \<Rightarrow> nat option \<Rightarrow> db \<Rightarrow> (error + unit) \<times> db" where
  "persist e cs result communication d =
     (case for_each (persist_party e communication (cs_id cs)) (other_parties result)
             (update_case_fields cs result d) of
        (Inl err, d1) \<Rightarrow> (Inl err, d1)
      | (Inr _, d1) \<Rightarrow>
          (case for_each (persist_medical_item e communication (cs_id cs))
                  (medical_providers result) d1 of
             (Inl err, d2) \<Rightarrow> (Inl err, d2)
           | (Inr _, d2) \<Rightarrow>
               for_each (persist_damage e communication (cs_id cs)) (damages result) d2))"

subsection \<open>Risk flags\<close>

text \<open>\<^verbatim>\<open>_flag_risks\<close>. \<open>today\<close> is \<^verbatim>\<open>date.today()\<close>; \<open>cached\<close> is the instance's
  \<^verbatim>\<open>_findings_cache\<close> (the identity of the turns object and the findings), if any. A date
  object is always truthy, so \<^verbatim>\<open>if result.incident_date\<close> tests for \<^verbatim>\<open>None\<close> only.\<close>

definition flag_risks :: "date \<Rightarrow> (nat \<times> finding list) option \<Rightarrow> extraction_result \<Rightarrow> string list" where
  "flag_risks today cached result =
     (let flags0 =
            (case incident_date result of
               None \<Rightarrow> []
             | Some d \<Rightarrow>
                 (let days_since = today - d
                  in if days_since > 600 then [''statute_of_limitations_risk''] else []));
          flags1 =
            (if incident_type result = Some ''auto'' \<and> insurance_carriers result = []
             then flags0 @ [''uninsured_motorist''] else flags0);
          flags2 =
            (if length (other_parties result) > 1
             then flags1 @ [''multiple_defendants''] else flags1);
          findings = (case cached of None \<Rightarrow> [] | Some (_, fdata) \<Rightarrow> fdata);
          all_text = lower (join_space (map value_str findings));
          flags3 =
            (if any_in [''pre-existing'', ''prior injury'', ''previous condition'',
                        ''prior condition''] all_text
             then flags2 @ [''pre_existing_condition''] else flags2);
          flags4 =
            (if any_in [''disputed'', ''dispute'', ''denied liability'', ''deny liability'',
                        ''not at fault''] all_text
             then flags3 @ [''liability_disputed''] else flags3)
      in flags4)"

subsection \<open>The two entry points\<close>

text \<open>\<^verbatim>\<open>communication.parse_status = status; communication.save(update_fields=[...])\<close>\<close>

definition save_parse_status :: "nat \<Rightarrow> string \<Rightarrow> db \<Rightarrow> db" where
  "save_parse_status comm status d =
     d\<lparr>communications :=
         map (\<lambda>r. if cm_id r = comm then r\<lparr>cm_parse_status := status\<rparr> else r)
           (communications d)\<rparr>"

text \<open>The \<^verbatim>\<open>IntakeExtractionResult\<close> that \<^verbatim>\<open>parse\<close> and \<^verbatim>\<open>ingest\<close> build from the classified
  lists, with \<^verbatim>\<open>result.raw_flags = self._flag_risks(result)\<close>.\<close>

definition build_result ::
  "env \<Rightarrow> service \<Rightarrow> incident_info \<Rightarrow> medical_data list \<Rightarrow> insurance_data list
     \<Rightarrow> party_data list \<Rightarrow> damage_data list \<Rightarrow> extraction_result" where
  "build_result e svc info medical insurance parties dmgs =
     (let result = \<lparr>incident_date = ii_incident_date info,
                     incident_type = ii_incident_type info,
                     incident_location = ii_incident_location info,
                     injuries = ii_injuries info,
                     medical_providers = medical,
                     insurance_carriers = insurance,
                     other_parties = parties,
                     damages = dmgs,
                     raw_flags = []\<rparr>
      in result\<lparr>raw_flags := flag_risks (clock_today e) (findings_cache svc) result\<rparr>)"


text \<open>The HTTP answers of the \<^verbatim>\<open>parse\<close> action of \<^verbatim>\<open>ClientCommunicationViewSet\<close>.\<close>

datatype response =
    Response200 extraction_result
  | Response404
  | Response500 error


text \<open>\<^verbatim>\<open>_cite_meta\<close> of \<^verbatim>\<open>_write_metadata_citations\<close>: nothing for a missing finding.\<close>

definition cite_meta ::
  "env \<Rightarrow> nat \<Rightarrow> string \<Rightarrow> finding option \<Rightarrow> (string \<times> nat) option \<Rightarrow> string
     \<Rightarrow> db \<Rightarrow> (error + unit) \<times> db" where
  "cite_meta e comm citation_key fnd obj label d =
     (case fnd of
        None \<Rightarrow> (Inr (), d)
      | Some f \<Rightarrow>
          create_citation e comm citation_key (cited_text_of f (value_str f))
            (turn_index_of f) (confidence_of f) obj label d)"

text \<open>\<^verbatim>\<open>_write_metadata_citations\<close>\<close>

definition write_metadata_citations ::
  "env \<Rightarrow> nat \<Rightarrow> (string \<rightharpoonup> finding) \<Rightarrow> nat \<Rightarrow> db \<Rightarrow> (error + unit) \<times> db" where
  "write_metadata_citations e comm m client_pk d =
     (case cite_meta e comm ''caller_name'' (m ''caller_name'')
             (Some (''client'', client_pk)) ''identified caller'' d of
        (Inl err, d1) \<Rightarrow> (Inl err, d1)
      | (Inr _, d1) \<Rightarrow>
     (case cite_meta e comm ''accident_date'' (m ''accident_date'') None [] d1 of
        (Inl err, d2) \<Rightarrow> (Inl err, d2)
      | (Inr _, d2) \<Rightarrow>
     (case cite_meta e comm ''case_type'' (m ''case_type'') None [] d2 of
        (Inl err, d3) \<Rightarrow> (Inl err, d3)
      | (Inr _, d3) \<Rightarrow>
          cite_meta e comm ''incident_location'' (m ''incident_location'') None [] d3)))"

text \<open>Step 3 of \<^verbatim>\<open>ingest\<close>: \<^verbatim>\<open>LawFirm.objects.get(pk=law_firm_id)\<close> for a given id, else
  \<^verbatim>\<open>get_or_create\<close> by the extracted name or by \<^verbatim>\<open>"Unknown Law Firm"\<close>.\<close>

definition resolve_law_firm ::
  "nat option \<Rightarrow> (string \<rightharpoonup> finding) \<Rightarrow> db \<Rightarrow> (error + law_firm) \<times> db" where
  "resolve_law_firm law_firm_id m d =
     (case law_firm_id of
        Some pk \<Rightarrow>
          (case filter (\<lambda>r. lf_id r = pk) (law_firms d) of
             [] \<Rightarrow> (Inl DoesNotExist, d)
           | firm # _ \<Rightarrow> (Inr firm, d))
      | None \<Rightarrow>
          (let firm_name =
                 (case meta_value m ''law_firm_name'' of
                    None \<Rightarrow> ''Unknown Law Firm''
                  | Some n \<Rightarrow> if n = [] then ''Unknown Law Firm'' else n)
           in case get_unique (\<lambda>r. lf_name r = firm_name) (law_firms d) of
                Inl err \<Rightarrow> (Inl err, d)
              | Inr (Some firm) \<Rightarrow> (Inr firm, d)
              | Inr None \<Rightarrow>
                  (let firm = \<lparr>lf_id = next_id d, lf_name = firm_name\<rparr>
                   in (Inr firm,
                       d\<lparr>law_firms := law_firms d @ [firm], next_id := next_id d + 1\<rparr>))))"

text \<open>Step 4 of \<^verbatim>\<open>ingest\<close>: the caller's first and last name, from
  \<^verbatim>\<open>caller_name.strip().split(" ", 1)\<close>.\<close>

definition caller_identity :: "(string \<rightharpoonup> finding) \<Rightarrow> string \<times> string" where
  "caller_identity m =
     (let caller_name = (case meta_value m ''caller_name'' of None \<Rightarrow> [] | Some n \<Rightarrow> n)
      in name_parts (strip caller_name))"

text \<open>Step 5 of \<^verbatim>\<open>ingest\<close>: the matched client and case, or a client from
  \<^verbatim>\<open>Client.objects.get_or_create\<close> (exact names) with a new case. The random case number is
  not modelled.\<close>

definition match_or_create ::
  "law_firm \<Rightarrow> string \<Rightarrow> string \<Rightarrow> incident_info \<Rightarrow> db
     \<Rightarrow> (error + (client \<times> case_row \<times> bool)) \<times> db" where
  "match_or_create firm first_name last_name info d =
     (case find_existing_case d (lf_id firm) first_name last_name (ii_incident_type info)
             (ii_incident_date info) (ii_incident_location info) of
        Some (c, cs) \<Rightarrow> (Inr (c, cs, True), d)
      | None \<Rightarrow>
          (case (case get_unique (\<lambda>r. cl_law_firm r = lf_id firm \<and> cl_first_name r = first_name
                                   \<and> cl_last_name r = last_name) (clients d) of
                   Inl err \<Rightarrow> (Inl err, d)
                 | Inr (Some c) \<Rightarrow> (Inr c, d)
                 | Inr None \<Rightarrow>
                     (let c = \<lparr>cl_id = next_id d, cl_law_firm = lf_id firm,
                                cl_first_name = first_name, cl_last_name = last_name\<rparr>
                      in (Inr c, d\<lparr>clients := clients d @ [c], next_id := next_id d + 1\<rparr>))) of
             (Inl err, d1) \<Rightarrow> (Inl err, d1)
           | (Inr c, d1) \<Rightarrow>
               (let cs = \<lparr>cs_id = next_id d1, cs_client = cl_id c,
                           cs_incident_type =
                             (case ii_incident_type info of None \<Rightarrow> [] | Some t \<Rightarrow> t),
                           cs_incident_date = ii_incident_date info,
                           cs_incident_location =
                             (case ii_incident_location info of None \<Rightarrow> [] | Some l \<Rightarrow> l)\<rparr>
                in (Inr (c, cs, False),
                    d1\<lparr>cases := cases d1 @ [cs], next_id := next_id d1 + 1\<rparr>))))"

text \<open>Steps 6 to 11 of \<^verbatim>\<open>ingest\<close>, for the client and case of step 5: create the
  communication, cite the metadata findings if the records are new, build the result,
  flag the risks, persist, and mark the communication done.\<close>

definition ingest_finish ::
  "env \<Rightarrow> turns_obj \<Rightarrow> (string \<rightharpoonup> finding) \<Rightarrow> incident_info \<Rightarrow> client \<Rightarrow> case_row \<Rightarrow> bool
     \<Rightarrow> service \<Rightarrow> db
     \<Rightarrow> (error + (communication \<times> extraction_result \<times> bool)) \<times> service \<times> db" where
  "ingest_finish e turns m info c cs matched svc2 d2 =
     (let comm = \<lparr>cm_id = next_id d2, cm_client = cl_id c, cm_case = Some (cs_id cs),
                   cm_channel = ''phone'', cm_raw_transcript = titems turns,
                   cm_parse_status = ''processing''\<rparr>;
          d3 = d2\<lparr>communications := communications d2 @ [comm],
                  next_id := next_id d2 + 1\<rparr>
      in
     (case (if matched then (Inr (), d3)
            else write_metadata_citations e (cm_id comm) m (cl_id c) d3) of
        (Inl err, d4) \<Rightarrow> (Inl err, svc2, d4)
      | (Inr _, d4) \<Rightarrow>
     (case extract_medical e turns svc2 of
        (Inl err, svc3) \<Rightarrow> (Inl err, svc3, d4)
      | (Inr medical, svc3) \<Rightarrow>
     (case extract_insurance e turns svc3 of
        (Inl err, svc4) \<Rightarrow> (Inl err, svc4, d4)
      | (Inr insurance, svc4) \<Rightarrow>
     (case extract_parties e turns svc4 of
        (Inl err, svc5) \<Rightarrow> (Inl err, svc5, d4)
      | (Inr parties, svc5) \<Rightarrow>
     (case extract_damages e turns svc5 of
        (Inl err, svc6) \<Rightarrow> (Inl err, svc6, d4)
      | (Inr dmgs, svc6) \<Rightarrow>
          (let result = build_result e svc6 info medical insurance parties dmgs
           in case persist e cs result (Some (cm_id comm)) d4 of
                (Inl err, d5) \<Rightarrow> (Inl err, svc6, d5)
              | (Inr _, d5) \<Rightarrow>
                  (Inr (comm\<lparr>cm_parse_status := ''done''\<rparr>, result, matched), svc6,
                   save_parse_status (cm_id comm) ''done'' d5))))))))"

text \<open>\<^verbatim>\<open>ingest\<close>. The result is the exception, or the communication, the extraction result
  and the \<^verbatim>\<open>matched\<close> flag; with the instance and the database as the call leaves them.\<close>

definition ingest ::
  "env \<Rightarrow> turns_obj \<Rightarrow> nat option \<Rightarrow> service \<Rightarrow> db
     \<Rightarrow> (error + (communication \<times> extraction_result \<times> bool)) \<times> service \<times> db" where
  "ingest e turns law_firm_id svc d =
     (case call_llm e turns svc of
        (Inl err, svc1) \<Rightarrow> (Inl err, svc1, d)
      | (Inr findings, svc1) \<Rightarrow>
     (case index_meta findings Map.empty of
        Inl err \<Rightarrow> (Inl err, svc1, d)
      | Inr m \<Rightarrow>
     (case resolve_law_firm law_firm_id m d of
        (Inl err, d1) \<Rightarrow> (Inl err, svc1, d1)
      | (Inr firm, d1) \<Rightarrow>
     (case extract_incident_info e turns svc1 of
        (Inl err, svc2) \<Rightarrow> (Inl err, svc2, d1)
      | (Inr info, svc2) \<Rightarrow>
     (case match_or_create firm (fst (caller_identity m)) (snd (caller_identity m)) info d1 of
        (Inl err, d2) \<Rightarrow> (Inl err, svc2, d2)
      | (Inr (c, cs, matched), d2) \<Rightarrow>
          ingest_finish e turns m info c cs matched svc2 d2)))))"

subsection \<open>Running extraction steps in sequence\<close>




subsection \<open>Views of the database\<close>

text \<open>The tables that identify firms, clients, cases and communications, and the tables
  of the domain facts that \<^verbatim>\<open>persist\<close> writes.\<close>

definition registry ::
  "db \<Rightarrow> law_firm list \<times> client list \<times> case_row list \<times> communication list" where
  "registry d = (law_firms d, clients d, cases d, communications d)"

definition domain_tables ::
  "db \<Rightarrow> other_party list \<times> medical_facility list \<times> medical_provider list \<times> treatment list
       \<times> damage list" where
  "domain_tables d =
     (other_party_rows d, medical_facilities d, medical_provider_rows d, treatments d,
      damage_rows d)"

subsection \<open>A sample call\<close>

text \<open>The findings of one intake call: Jane Smith, a car accident on 2024-03-03 (ordinal
  738948) at 123 Main St, Springfield, with Acme Trucking LLC as the other party.\<close>

definition f_caller :: finding where
  "f_caller = \<lparr>finding_type = Val ''metadata'', field = Val ''caller_name'',
     fvalue = Val ''Jane Smith'', transcript_index = Val 2,
     quote = Val ''My name is Jane Smith.'', confidence = Val ''high''\<rparr>"

definition f_date :: finding where
  "f_date = \<lparr>finding_type = Val ''metadata'', field = Val ''accident_date'',
     fvalue = Val ''2024-03-03'', transcript_index = Val 4,
     quote = Val ''It happened on March 3rd.'', confidence = Val ''high''\<rparr>"

definition f_type :: finding where
  "f_type = \<lparr>finding_type = Val ''metadata'', field = Val ''case_type'',
     fvalue = Val ''auto_accident'', transcript_index = Val 4,
     quote = Val ''A truck hit my car.'', confidence = Val ''medium''\<rparr>"

definition f_location :: finding where
  "f_location = \<lparr>finding_type = Val ''metadata'', field = Val ''incident_location'',
     fvalue = Val ''123 Main St, Springfield'', transcript_index = Val 5,
     quote = Absent, confidence = Val ''high''\<rparr>"

definition f_party :: finding where
  "f_party = \<lparr>finding_type = Val ''individual'', field = Val ''other_party'',
     fvalue = Val ''Acme Trucking LLC'', transcript_index = Val 6,
     quote = Val ''It was an Acme Trucking truck.'', confidence = Val ''high''\<rparr>"

definition f_party2 :: finding where
  "f_party2 = \<lparr>finding_type = Val ''individual'', field = Val ''other_party'',
     fvalue = Val ''Bob Jones'', transcript_index = Val 7,
     quote = Val ''The driver was Bob Jones.'', confidence = Val ''low''\<rparr>"

definition sample_findings :: "finding list" where
  "sample_findings = [f_caller, f_date, f_type, f_location, f_party, f_party2]"

definition sample_env :: env where
  "sample_env =
     \<lparr>api_key = Some ''sk-test'',
      llm = (\<lambda>_. Content (Some (Object (Val (ItemList (map Dict sample_findings)))))),
      clock_today = 739548,
      fromisoformat = (\<lambda>s. if s = ''2024-03-03'' then Some 738948 else None),
      citation_write_fails = (\<lambda>_ _. False),
      reference_write_fails = (\<lambda>_ _. False)\<rparr>"

definition sample_turns :: turns_obj where
  "sample_turns = \<lparr>tid = 1, titems = [(''Caller'', ''My name is Jane Smith.'')]\<rparr>"

definition empty_db :: db where
  "empty_db =
     \<lparr>law_firms = [], clients = [], cases = [], other_party_rows = [],
      medical_facilities = [], medical_provider_rows = [], treatments = [],
      damage_rows = [], communications = [], citations = [], citation_references = [],
      next_id = 0\<rparr>"

text \<open>An extraction result with nothing in it.\<close>

definition empty_result :: extraction_result where
  "empty_result =
     \<lparr>incident_date = None, incident_type = None, incident_location = None, injuries = [],
      medical_providers = [], insurance_carriers = [], other_parties = [], damages = [],
      raw_flags = []\<rparr>"

subsection \<open>Sample databases\<close>

text \<open>One firm with one client, Jane Smith, who has two cases: an older one on the date of
  the sample call, and a newer one at the location of the sample call.\<close>

definition jane :: client where
  "jane = \<lparr>cl_id = 2, cl_law_firm = 1, cl_first_name = ''Jane'', cl_last_name = ''Smith''\<rparr>"

definition case_by_date :: case_row where
  "case_by_date = \<lparr>cs_id = 3, cs_client = 2, cs_incident_type = ''auto'',
     cs_incident_date = Some 738948, cs_incident_location = ''Highway 9''\<rparr>"

definition case_by_location :: case_row where
  "case_by_location = \<lparr>cs_id = 4, cs_client = 2, cs_incident_type = ''auto'',
     cs_incident_date = Some 738000, cs_incident_location = ''123 Main St, Springfield''\<rparr>"

definition matcher_db :: db where
  "matcher_db = empty_db\<lparr>law_firms := [\<lparr>lf_id = 1, lf_name = ''Smith and Co''\<rparr>],
     clients := [jane], cases := [case_by_date, case_by_location], next_id := 5\<rparr>"






section \<open>Properties\<close>

subsection \<open>Risk flags\<close>

text \<open>
  C8. The flag \<^verbatim>\<open>statute_of_limitations_risk\<close> is emitted if and only if the incident date is
  set and more than 600 days lie between it and the evaluation date: an incident exactly
  600 days back is not flagged, one 601 days back is.
\<close>

theorem statute_of_limitations_flag:
  "(''statute_of_limitations_risk'' \<in> set (flag_risks today cached r) \<longleftrightarrow>
      (\<exists>dt. incident_date r = Some dt \<and> today - dt > 600))
   \<and> ''statute_of_limitations_risk''
        \<notin> set (flag_risks today cached (r\<lparr>incident_date := Some (today - 600)\<rparr>))
   \<and> ''statute_of_limitations_risk''
        \<in> set (flag_risks today cached (r\<lparr>incident_date := Some (today - 601)\<rparr>))"
  by (cases "incident_date r") (auto simp add: flag_risks_def Let_def)

theorem statute_of_limitations_flag_witness:
  "''statute_of_limitations_risk''
      \<notin> set (flag_risks 739548 None (empty_result\<lparr>incident_date := Some 738948\<rparr>))
   \<and> ''statute_of_limitations_risk''
      \<in> set (flag_risks 739549 None (empty_result\<lparr>incident_date := Some 738948\<rparr>))"
  using statute_of_limitations_flag [of 739548 None "empty_result\<lparr>incident_date := Some 738948\<rparr>"]
    statute_of_limitations_flag [of 739549 None "empty_result\<lparr>incident_date := Some 738948\<rparr>"]
  by simp

text \<open>
  C9. The flag \<^verbatim>\<open>uninsured_motorist\<close> is emitted if and only if the incident type is exactly
  \<^verbatim>\<open>auto\<close> and no insurance carrier was extracted; for any other incident type it is never
  emitted, whatever the insurance data.
\<close>

theorem uninsured_motorist_flag:
  "(''uninsured_motorist'' \<in> set (flag_risks today cached r) \<longleftrightarrow>
      (incident_type r = Some ''auto'' \<and> insurance_carriers r = []))
   \<and> (incident_type r \<noteq> Some ''auto'' \<longrightarrow>
        ''uninsured_motorist'' \<notin> set (flag_risks today cached r))"
  by (cases "incident_date r") (auto simp add: flag_risks_def Let_def)

theorem uninsured_motorist_flag_witness:
  "incident_type (empty_result\<lparr>incident_type := Some ''slip_fall''\<rparr>) \<noteq> Some ''auto''
   \<and> insurance_carriers (empty_result\<lparr>incident_type := Some ''slip_fall''\<rparr>) = []
   \<and> ''uninsured_motorist''
        \<notin> set (flag_risks 0 None (empty_result\<lparr>incident_type := Some ''slip_fall''\<rparr>))"
  using uninsured_motorist_flag [of 0 None "empty_result\<lparr>incident_type := Some ''slip_fall''\<rparr>"]
  by (simp add: empty_result_def)

subsection \<open>The extraction call\<close>

text \<open>
  C1. A reply that is not JSON, or whose parsed object lacks a \<^verbatim>\<open>findings\<close> list, must be
  rejected with the classified error. The source reads the key with
  \<^verbatim>\<open>parsed.get("findings", [])\<close>, so an object without the key passes the list test: the
  call returns zero findings and caches them, although the message of the error it was
  meant to raise reads "'findings' key missing or not a list".
\<close>

theorem missing_findings_key_is_accepted:
  "call_llm (sample_env\<lparr>llm := (\<lambda>_. Content (Some (Object Absent)))\<rparr>) sample_turns new_service
     = (Inr [], \<lparr>findings_cache = Some (1, []), llm_calls = 1\<rparr>)"
  by (simp add: call_llm_def sample_env_def sample_turns_def new_service_def Let_def)










subsection \<open>The matcher\<close>


lemma last_filter:
  "filter P xs \<noteq> [] \<Longrightarrow> last (filter P xs) \<in> set xs \<and> P (last (filter P xs))"
  using last_in_set[of "filter P xs"] by simp

lemma newest_Nil [simp]: "newest [] = None"
  by (simp add: newest_def)

lemma newest_filter_Some:
  "newest (filter P xs) = Some x \<Longrightarrow> x \<in> set xs \<and> P x"
  using last_filter[of P xs] by (auto simp: newest_def split: if_splits)

lemma newest_filter_None: "newest (filter P xs) = None \<longleftrightarrow> (\<forall>x\<in>set xs. \<not> P x)"
  by (auto simp: newest_def filter_empty_conv)

lemma newest_Some_iff: "newest xs = Some x \<longleftrightarrow> xs \<noteq> [] \<and> x = last xs"
  by (auto simp: newest_def)

lemma find_existing_case_unfold:
  assumes "client_qs d firm fn ln \<noteq> []"
    and "case_qs d (last (client_qs d firm fn ln)) \<noteq> []"
  shows "find_existing_case d firm fn ln ty dte loc =
    (case (case dte of
             None \<Rightarrow> None
           | Some dt \<Rightarrow>
               newest (filter (\<lambda>k. cs_incident_date k = Some dt)
                 (case_qs d (last (client_qs d firm fn ln))))) of
       Some date_match \<Rightarrow> Some (last (client_qs d firm fn ln), date_match)
     | None \<Rightarrow>
         (case (ty, loc) of
            (Some t, Some l) \<Rightarrow>
              if t \<noteq> [] \<and> l \<noteq> [] then
                (case newest (filter (\<lambda>k. cs_incident_type k = t
                          \<and> icontains (cs_incident_location k) (location_anchor l))
                        (case_qs d (last (client_qs d firm fn ln)))) of
                   Some type_loc_match \<Rightarrow> Some (last (client_qs d firm fn ln), type_loc_match)
                 | None \<Rightarrow> None)
              else None
          | _ \<Rightarrow> None))"
proof -
  have nc: "newest (client_qs d firm fn ln) = Some (last (client_qs d firm fn ln))"
    using assms(1) by (simp add: newest_def)
  show ?thesis
    unfolding find_existing_case_def nc using assms(2) by simp
qed

lemma find_existing_case_None_early:
  "client_qs d firm fn ln = [] \<or> case_qs d (last (client_qs d firm fn ln)) = []
   \<Longrightarrow> find_existing_case d firm fn ln ty dte loc = None"
  by (auto simp: find_existing_case_def newest_def)

lemma find_existing_case_Some:
  assumes "find_existing_case d firm fn ln ty dte loc = Some (c, k)"
  shows "client_qs d firm fn ln \<noteq> [] \<and> c = last (client_qs d firm fn ln)
     \<and> k \<in> set (case_qs d c)
     \<and> ((\<exists>dt. dte = Some dt \<and> cs_incident_date k = Some dt
             \<and> k = last (filter (\<lambda>k. cs_incident_date k = Some dt) (case_qs d c)))
        \<or> ((\<forall>dt. dte = Some dt \<longrightarrow> (\<forall>k'\<in>set (case_qs d c). cs_incident_date k' \<noteq> Some dt))
            \<and> (\<exists>t l. ty = Some t \<and> loc = Some l \<and> t \<noteq> [] \<and> l \<noteq> []
                  \<and> cs_incident_type k = t
                  \<and> icontains (cs_incident_location k) (location_anchor l)
                  \<and> k = last (filter (\<lambda>k. cs_incident_type k = t
                          \<and> icontains (cs_incident_location k) (location_anchor l))
                        (case_qs d c)))))"
proof -
  let ?c = "last (client_qs d firm fn ln)"
  from assms have ne: "client_qs d firm fn ln \<noteq> []" and cq: "case_qs d ?c \<noteq> []"
    using find_existing_case_None_early[of d firm fn ln ty dte loc] by auto
  note U = find_existing_case_unfold[OF ne cq, of ty dte loc]
  let ?dm = "(case dte of None \<Rightarrow> None
       | Some dt \<Rightarrow> newest (filter (\<lambda>k. cs_incident_date k = Some dt) (case_qs d ?c)))"
  show ?thesis
  proof (cases ?dm)
    case (Some m)
    then obtain dt where dt: "dte = Some dt"
      and nm: "newest (filter (\<lambda>k. cs_incident_date k = Some dt) (case_qs d ?c)) = Some m"
      by (cases dte) simp_all
    from assms U Some have ck: "c = ?c" "k = m" by simp_all
    from nm have "m \<in> set (case_qs d ?c) \<and> cs_incident_date m = Some dt"
      by (rule newest_filter_Some)
    moreover from nm have "m = last (filter (\<lambda>k. cs_incident_date k = Some dt) (case_qs d ?c))"
      by (simp add: newest_Some_iff)
    ultimately show ?thesis using ne ck dt by blast
  next
    case None
    then have nd: "\<forall>dt. dte = Some dt \<longrightarrow> (\<forall>k'\<in>set (case_qs d ?c). cs_incident_date k' \<noteq> Some dt)"
      by (cases dte) (simp_all add: newest_filter_None)
    from assms U None have r: "(case (ty, loc) of
            (Some t, Some l) \<Rightarrow>
              if t \<noteq> [] \<and> l \<noteq> [] then
                (case newest (filter (\<lambda>k. cs_incident_type k = t
                          \<and> icontains (cs_incident_location k) (location_anchor l))
                        (case_qs d ?c)) of
                   Some type_loc_match \<Rightarrow> Some (?c, type_loc_match)
                 | None \<Rightarrow> None)
              else None
          | _ \<Rightarrow> None) = Some (c, k)" by simp
    then obtain t l where tl: "ty = Some t" "loc = Some l"
      by (cases ty; cases loc) simp_all
    from r tl have tl2: "t \<noteq> []" "l \<noteq> []"
      by (auto split: if_splits)
    from r tl tl2 have nm: "newest (filter (\<lambda>k. cs_incident_type k = t
                          \<and> icontains (cs_incident_location k) (location_anchor l))
                        (case_qs d ?c)) = Some k" and c: "c = ?c"
      by (auto split: option.splits)
    from newest_filter_Some[OF nm]
    have km: "k \<in> set (case_qs d ?c) \<and> cs_incident_type k = t
                \<and> icontains (cs_incident_location k) (location_anchor l)" .
    from nm have kl: "k = last (filter (\<lambda>k. cs_incident_type k = t
                          \<and> icontains (cs_incident_location k) (location_anchor l))
                        (case_qs d ?c))"
      by (simp add: newest_Some_iff)
    show ?thesis
      using ne c nd tl tl2 km kl by blast
  qed
qed

lemma date_match_found:
  assumes "client_qs d firm fn ln \<noteq> []"
    and "k \<in> set (case_qs d (last (client_qs d firm fn ln)))"
    and "cs_incident_date k = Some dt"
  shows "\<exists>k'. find_existing_case d firm fn ln ty (Some dt) loc
                 = Some (last (client_qs d firm fn ln), k')
           \<and> k' \<in> set (case_qs d (last (client_qs d firm fn ln)))
           \<and> cs_incident_date k' = Some dt
           \<and> k' = last (filter (\<lambda>k. cs_incident_date k = Some dt)
                          (case_qs d (last (client_qs d firm fn ln))))"
proof -
  let ?c = "last (client_qs d firm fn ln)"
  let ?ms = "filter (\<lambda>k. cs_incident_date k = Some dt) (case_qs d ?c)"
  have ne: "?ms \<noteq> []" using assms(2,3) by (auto simp: filter_empty_conv)
  have cqs: "case_qs d ?c \<noteq> []" using assms(2) by auto
  have res: "find_existing_case d firm fn ln ty (Some dt) loc = Some (?c, last ?ms)"
    using ne by (simp add: find_existing_case_unfold[OF assms(1) cqs] newest_def)
  have m: "last ?ms \<in> set (case_qs d ?c) \<and> cs_incident_date (last ?ms) = Some dt"
    using last_filter[OF ne] by simp
  show ?thesis using res m by blast
qed

text \<open>
  C6. When the matched client (the most recently created client of the firm whose name
  equals the caller's up to letter case) has a case on the supplied incident date, the
  matcher returns a case of that client with that date, whatever incident type and
  location are supplied and whatever other cases would match by type and location; when
  just one case has the date, it is the one returned. A case that the matcher returns
  without the supplied date comes from the type and location tier, and then no case of
  the client has the supplied date.
\<close>

theorem date_match_preferred:
  "(client_qs d firm fn ln \<noteq> []
      \<and> k \<in> set (case_qs d (last (client_qs d firm fn ln)))
      \<and> cs_incident_date k = Some dt \<longrightarrow>
      (\<exists>k'. find_existing_case d firm fn ln ty (Some dt) loc
                = Some (last (client_qs d firm fn ln), k')
           \<and> k' \<in> set (case_qs d (last (client_qs d firm fn ln)))
           \<and> cs_incident_date k' = Some dt
           \<and> ((\<forall>k''\<in>set (case_qs d (last (client_qs d firm fn ln))).
                  cs_incident_date k'' = Some dt \<longrightarrow> k'' = k) \<longrightarrow> k' = k)))
   \<and> (find_existing_case d firm fn ln ty (Some dt) loc = Some (c, k2)
        \<and> cs_incident_date k2 \<noteq> Some dt \<longrightarrow>
      (\<forall>k'\<in>set (case_qs d c). cs_incident_date k' \<noteq> Some dt)
      \<and> ty = Some (cs_incident_type k2)
      \<and> (\<exists>l. loc = Some l \<and> icontains (cs_incident_location k2) (location_anchor l)))"
proof (intro conjI impI)
  assume a: "client_qs d firm fn ln \<noteq> []
      \<and> k \<in> set (case_qs d (last (client_qs d firm fn ln)))
      \<and> cs_incident_date k = Some dt"
  from a have a1: "client_qs d firm fn ln \<noteq> []"
    and a2: "k \<in> set (case_qs d (last (client_qs d firm fn ln)))"
    and a3: "cs_incident_date k = Some dt" by simp_all
  from date_match_found[OF a1 a2 a3, of ty loc]
  show "\<exists>k'. find_existing_case d firm fn ln ty (Some dt) loc
                = Some (last (client_qs d firm fn ln), k')
           \<and> k' \<in> set (case_qs d (last (client_qs d firm fn ln)))
           \<and> cs_incident_date k' = Some dt
           \<and> ((\<forall>k''\<in>set (case_qs d (last (client_qs d firm fn ln))).
                  cs_incident_date k'' = Some dt \<longrightarrow> k'' = k) \<longrightarrow> k' = k)"
    by blast
next
  assume b: "find_existing_case d firm fn ln ty (Some dt) loc = Some (c, k2)
        \<and> cs_incident_date k2 \<noteq> Some dt"
  then have b1: "find_existing_case d firm fn ln ty (Some dt) loc = Some (c, k2)"
    and b2: "cs_incident_date k2 \<noteq> Some dt" by simp_all
  from find_existing_case_Some[OF b1] b2
  show "\<forall>k'\<in>set (case_qs d c). cs_incident_date k' \<noteq> Some dt" by auto
  from find_existing_case_Some[OF b1] b2
  show "ty = Some (cs_incident_type k2)" by auto
  from find_existing_case_Some[OF b1] b2
  show "\<exists>l. loc = Some l \<and> icontains (cs_incident_location k2) (location_anchor l)" by auto
qed

theorem date_match_preferred_witness:
  "client_qs matcher_db 1 ''jane'' ''SMITH'' = [jane]
   \<and> case_qs matcher_db jane = [case_by_date, case_by_location]
   \<and> cs_incident_date case_by_date = Some 738948
   \<and> cs_incident_date case_by_location = Some 738000
   \<and> find_existing_case matcher_db 1 ''jane'' ''SMITH'' (Some ''auto'') (Some 738948)
        (Some ''123 Main St'') = Some (jane, case_by_date)
   \<and> find_existing_case matcher_db 1 ''jane'' ''SMITH'' (Some ''auto'') (Some 738001)
        (Some ''123 Main St'') = Some (jane, case_by_location)
   \<and> filter (\<lambda>k. cs_incident_date k = Some 738001) (case_qs matcher_db jane) = []"
proof -
  have cq: "client_qs matcher_db 1 ''jane'' ''SMITH'' = [jane]"
    by (simp add: client_qs_def matcher_db_def jane_def iexact_def lower_def lower_char_def)
  have ks: "case_qs matcher_db jane = [case_by_date, case_by_location]"
    by (simp add: case_qs_def matcher_db_def jane_def case_by_date_def case_by_location_def)
  have d1: "cs_incident_date case_by_date = Some 738948" by (simp add: case_by_date_def)
  have d2: "cs_incident_date case_by_location = Some 738000" by (simp add: case_by_location_def)
  have h1: "client_qs matcher_db 1 ''jane'' ''SMITH'' \<noteq> []" using cq by simp
  have h1': "last (client_qs matcher_db 1 ''jane'' ''SMITH'') = jane" using cq by simp
  have h2: "case_by_date \<in> set (case_qs matcher_db (last (client_qs matcher_db 1 ''jane'' ''SMITH'')))"
    using ks h1' by simp
  have h4: "\<forall>k''\<in>set (case_qs matcher_db (last (client_qs matcher_db 1 ''jane'' ''SMITH''))).
         cs_incident_date k'' = Some 738948 \<longrightarrow> k'' = case_by_date"
    using ks h1' d1 d2 by simp
  from date_match_preferred [of matcher_db 1 "''jane''" "''SMITH''" case_by_date 738948
      "Some ''auto''" "Some ''123 Main St''"] h1 h2 d1
  obtain k' where k1: "find_existing_case matcher_db 1 ''jane'' ''SMITH'' (Some ''auto'')
        (Some 738948) (Some ''123 Main St'')
        = Some (last (client_qs matcher_db 1 ''jane'' ''SMITH''), k')"
    and k2: "(\<forall>k''\<in>set (case_qs matcher_db (last (client_qs matcher_db 1 ''jane'' ''SMITH''))).
         cs_incident_date k'' = Some 738948 \<longrightarrow> k'' = case_by_date) \<longrightarrow> k' = case_by_date"
    by blast
  from k2 h4 have "k' = case_by_date" by (rule mp)
  with k1 h1'
  have r1: "find_existing_case matcher_db 1 ''jane'' ''SMITH'' (Some ''auto'') (Some 738948)
        (Some ''123 Main St'') = Some (jane, case_by_date)"
    by simp
  have r2: "find_existing_case matcher_db 1 ''jane'' ''SMITH'' (Some ''auto'') (Some 738001)
        (Some ''123 Main St'') = Some (jane, case_by_location)"
    by code_simp
  from date_match_preferred [of matcher_db 1 "''jane''" "''SMITH''" case_by_date 738001
      "Some ''auto''" "Some ''123 Main St''" jane case_by_location] r2 d2
  have "\<forall>k'\<in>set (case_qs matcher_db jane). cs_incident_date k' \<noteq> Some 738001"
    by simp
  then have r3: "filter (\<lambda>k. cs_incident_date k = Some 738001) (case_qs matcher_db jane) = []"
    by (simp add: filter_empty_conv)
  from cq ks d1 d2 r1 r2 r3 show ?thesis by (intro conjI)
qed




subsection \<open>The parse status\<close>












end
